theory Spec2Isabelle
  imports Main "HOL-Library.Char_ord" "HOL-Library.List_Lexorder" "HOL-Library.Multiset"
begin

section \<open>Data model\<close>

text \<open>
  The rows of the three tables, as the schema of the initial migration and the
  TypeScript interfaces \<^verbatim>\<open>Profile\<close>, \<^verbatim>\<open>Connection\<close> and \<^verbatim>\<open>Chat\<close> declare
  them. Identifiers are \<^verbatim>\<open>string\<close> on the client side; a \<^verbatim>\<open>timestamptz\<close> is a count
  of microseconds. A field name that two tables share carries the table's name.
\<close>

type_synonym uuid = string

type_synonym timestamptz = int

record Profile =
  profile_id :: uuid
  private_pin :: string
  display_name :: string
  avatar_url :: "string option"
  profile_created_at :: timestamptz
  updated_at :: timestamptz

record Connection =
  connection_id :: uuid
  user_id :: uuid
  connected_user_id :: uuid
  connection_created_at :: timestamptz

record Chat =
  chat_id :: uuid
  sender_id :: uuid
  receiver_id :: uuid
  message :: string
  created_at :: timestamptz
  read_flag :: bool

text \<open>
  The store: the identity provider's accounts (\<^verbatim>\<open>auth.users\<close>) and the three
  tables, each as the list of its rows in the order in which a scan of the table yields
  them.
\<close>

record db =
  auth_users :: "uuid list"
  db_profiles :: "Profile list"
  db_connections :: "Connection list"
  db_chats :: "Chat list"

section \<open>The PIN allocator \<^verbatim>\<open>generate_unique_pin\<close>\<close>

text \<open>
  \<^verbatim>\<open>FLOOR(RANDOM() * 1000000)::text\<close>: \<^verbatim>\<open>RANDOM()\<close> lies in \<open>[0, 1)\<close>, so the floor is
  a whole number below one million; its text is its decimal numeral.
\<close>

definition digit_char :: "nat \<Rightarrow> char" where
  "digit_char d = ''0123456789'' ! d"

function text_of_nat :: "nat \<Rightarrow> string" where
  "text_of_nat n =
     (if n < 10 then [digit_char n]
      else text_of_nat (n div 10) @ [digit_char (n mod 10)])"
  by pat_completeness auto
termination
  by (relation "measure (\<lambda>n. n)") auto

declare text_of_nat.simps [simp del]

text \<open>
  \<^verbatim>\<open>LPAD(string, length, fill)\<close>: the string is cut to \<open>length\<close> characters when it
  is longer, and otherwise extended on the left with the characters of \<open>fill\<close>,
  repeated.
\<close>

definition LPAD :: "string \<Rightarrow> nat \<Rightarrow> string \<Rightarrow> string" where
  "LPAD s len fill =
     (if len \<le> length s then take len s
      else take (len - length s) (concat (replicate (len - length s) fill)) @ s)"

definition candidate_pin :: "nat \<Rightarrow> string" where
  "candidate_pin r = LPAD (text_of_nat r) 6 ''0''"

text \<open>\<^verbatim>\<open>EXISTS (SELECT 1 FROM profiles WHERE private_pin = new_pin)\<close>.\<close>

definition pin_taken :: "Profile list \<Rightarrow> string \<Rightarrow> bool" where
  "pin_taken ps new_pin = list_ex (\<lambda>p. private_pin p = new_pin) ps"

text \<open>
  The loop of the function. \<open>rnd i\<close> is the value of
  \<^verbatim>\<open>FLOOR(RANDOM() * 1000000)\<close> in iteration \<open>i\<close>. The loop has no other exit than
  \<^verbatim>\<open>EXIT WHEN NOT pin_exists\<close>; a run that never leaves it has the value \<open>None\<close>.
\<close>

partial_function (option) generate_unique_pin_loop ::
  "(nat \<Rightarrow> nat) \<Rightarrow> Profile list \<Rightarrow> nat \<Rightarrow> string option" where
  "generate_unique_pin_loop rnd ps i =
     (let new_pin = candidate_pin (rnd i);
          pin_exists = pin_taken ps new_pin
      in if \<not> pin_exists then Some new_pin
         else generate_unique_pin_loop rnd ps (Suc i))"

declare generate_unique_pin_loop.simps [code]

text \<open>The regular expression \<^verbatim>\<open>^[0-9]{6}$\<close>.\<close>

definition is_digit :: "char \<Rightarrow> bool" where
  "is_digit c = (c \<in> set ''0123456789'')"

definition matches_pin_regex :: "string \<Rightarrow> bool" where
  "matches_pin_regex s = (length s = 6 \<and> list_all is_digit s)"

section \<open>Row-level security and constraints\<close>

text \<open>
  Every policy of the migration is \<^verbatim>\<open>TO authenticated\<close>: a caller without a session
  (\<open>anon\<close>) has no policy on any table, and row-level security, enabled on all
  three, then denies the command. \<^verbatim>\<open>auth.uid()\<close> is the identity of the session.
\<close>

datatype role = anon | authenticated uuid

datatype store_error =
  RlsViolation | NotNullViolation | UniqueViolation | ForeignKeyViolation | NotSingleRow

text \<open>SQL's \<open>=\<close>: a comparison with \<^verbatim>\<open>NULL\<close> is not true.\<close>

fun sql_eq :: "'a option \<Rightarrow> 'a option \<Rightarrow> bool" where
  "sql_eq (Some x) (Some y) = (x = y)"
| "sql_eq _ _ = False"

subsection \<open>profiles\<close>

text \<open>
  The values an \<^verbatim>\<open>INSERT\<close> supplies; a column it leaves out is \<open>None\<close>. The
  remaining columns take their defaults.
\<close>

record Profile_values =
  v_id :: "uuid option"
  v_private_pin :: "string option"
  v_display_name :: "string option"

text \<open>
  \<^verbatim>\<open>"Users can read all profiles" FOR SELECT TO authenticated USING (true)\<close> and
  \<^verbatim>\<open>"Users can update own profile" FOR UPDATE TO authenticated USING (auth.uid() = id)\<close>.
  The migration declares no policy \<^verbatim>\<open>FOR INSERT\<close> (nor \<^verbatim>\<open>FOR DELETE\<close>) on
  \<^verbatim>\<open>profiles\<close>.
\<close>

fun profiles_select_policy :: "role \<Rightarrow> Profile \<Rightarrow> bool" where
  "profiles_select_policy (authenticated u) p = True"
| "profiles_select_policy anon p = False"

fun profiles_update_policy :: "role \<Rightarrow> Profile \<Rightarrow> bool" where
  "profiles_update_policy (authenticated u) p = (u = profile_id p)"
| "profiles_update_policy anon p = False"

fun profiles_insert_check :: "role \<Rightarrow> Profile_values \<Rightarrow> bool" where
  "profiles_insert_check anon v = False"
| "profiles_insert_check (authenticated u) v = False"

text \<open>
  \<^verbatim>\<open>generate_unique_pin()\<close> is declared without \<^verbatim>\<open>SECURITY DEFINER\<close>: it runs with the
  rights of its caller, and the \<^verbatim>\<open>SELECT\<close> inside its \<^verbatim>\<open>EXISTS\<close> reads the rows of
  \<^verbatim>\<open>profiles\<close> that the caller's \<^verbatim>\<open>SELECT\<close> policy admits.
\<close>

definition generate_unique_pin :: "role \<Rightarrow> (nat \<Rightarrow> nat) \<Rightarrow> db \<Rightarrow> string option" where
  "generate_unique_pin r rnd d =
     generate_unique_pin_loop rnd (filter (profiles_select_policy r) (db_profiles d)) 0"

text \<open>
  An insert passes the policy check, then \<^verbatim>\<open>NOT NULL\<close>, then the primary key and
  \<^verbatim>\<open>UNIQUE (private_pin)\<close>, then the reference to \<^verbatim>\<open>auth.users\<close>. It answers
  with the new store and the row (\<^verbatim>\<open>.select().single()\<close>).
\<close>

definition insert_profile ::
  "db \<Rightarrow> role \<Rightarrow> timestamptz \<Rightarrow> Profile_values \<Rightarrow> store_error + (db \<times> Profile)" where
  "insert_profile d r now v =
     (if \<not> profiles_insert_check r v then Inl RlsViolation
      else case (v_id v, v_private_pin v, v_display_name v) of
        (Some i, Some pin, Some name) \<Rightarrow>
          if i \<in> set (map profile_id (db_profiles d)) then Inl UniqueViolation
          else if pin \<in> set (map private_pin (db_profiles d)) then Inl UniqueViolation
          else if i \<notin> set (auth_users d) then Inl ForeignKeyViolation
          else
            let row = \<lparr>profile_id = i, private_pin = pin, display_name = name,
                        avatar_url = None, profile_created_at = now, updated_at = now\<rparr>
            in Inr (d\<lparr>db_profiles := db_profiles d @ [row]\<rparr>, row)
      | _ \<Rightarrow> Inl NotNullViolation)"

text \<open>\<^verbatim>\<open>.from('profiles').select('*').eq('private_pin', pin).single()\<close>.\<close>

definition select_profile_by_pin :: "db \<Rightarrow> role \<Rightarrow> string \<Rightarrow> store_error + Profile" where
  "select_profile_by_pin d r pin =
     (case filter (\<lambda>p. private_pin p = pin) (filter (profiles_select_policy r) (db_profiles d)) of
        [p] \<Rightarrow> Inr p
      | _ \<Rightarrow> Inl NotSingleRow)"

subsection \<open>connections\<close>

record Connection_values =
  v_user_id :: "uuid option"
  v_connected_user_id :: "uuid option"

text \<open>
  \<^verbatim>\<open>"Users can read own connections"\<close> and
  \<^verbatim>\<open>"Users can create own connections" FOR INSERT WITH CHECK (auth.uid() = user_id)\<close>.
\<close>

fun connections_select_policy :: "role \<Rightarrow> Connection \<Rightarrow> bool" where
  "connections_select_policy (authenticated u) c = (u = user_id c \<or> u = connected_user_id c)"
| "connections_select_policy anon c = False"

fun connections_insert_check :: "role \<Rightarrow> Connection_values \<Rightarrow> bool" where
  "connections_insert_check (authenticated u) v = sql_eq (Some u) (v_user_id v)"
| "connections_insert_check anon v = False"

text \<open>\<^verbatim>\<open>UNIQUE(user_id, connected_user_id)\<close>.\<close>

definition edge_exists :: "Connection list \<Rightarrow> uuid \<Rightarrow> uuid \<Rightarrow> bool" where
  "edge_exists cs a b = list_ex (\<lambda>c. user_id c = a \<and> connected_user_id c = b) cs"

text \<open>
  \<open>new_id\<close> is the value of \<^verbatim>\<open>gen_random_uuid()\<close> and \<open>now\<close> that of \<^verbatim>\<open>now()\<close>
  for this insert.
\<close>

definition connection_row :: "uuid \<Rightarrow> timestamptz \<Rightarrow> uuid \<Rightarrow> uuid \<Rightarrow> Connection" where
  "connection_row new_id now a b =
     \<lparr>connection_id = new_id, user_id = a, connected_user_id = b,
      connection_created_at = now\<rparr>"

definition insert_connection ::
  "db \<Rightarrow> role \<Rightarrow> uuid \<Rightarrow> timestamptz \<Rightarrow> Connection_values \<Rightarrow> store_error + db" where
  "insert_connection d r new_id now v =
     (if \<not> connections_insert_check r v then Inl RlsViolation
      else case (v_user_id v, v_connected_user_id v) of
        (Some a, Some b) \<Rightarrow>
          if new_id \<in> set (map connection_id (db_connections d)) then Inl UniqueViolation
          else if edge_exists (db_connections d) a b then Inl UniqueViolation
          else if a \<notin> set (map profile_id (db_profiles d)) then Inl ForeignKeyViolation
          else if b \<notin> set (map profile_id (db_profiles d)) then Inl ForeignKeyViolation
          else Inr (d\<lparr>db_connections := db_connections d @ [connection_row new_id now a b]\<rparr>)
      | _ \<Rightarrow> Inl NotNullViolation)"

subsection \<open>chats\<close>

record Chat_values =
  v_sender_id :: "uuid option"
  v_receiver_id :: "uuid option"
  v_message :: "string option"

text \<open>
  \<^verbatim>\<open>"Users can read their own chats"\<close> and
  \<^verbatim>\<open>"Users can send messages" FOR INSERT WITH CHECK (auth.uid() = sender_id)\<close>.
\<close>

fun chats_select_policy :: "role \<Rightarrow> Chat \<Rightarrow> bool" where
  "chats_select_policy (authenticated u) c = (u = sender_id c \<or> u = receiver_id c)"
| "chats_select_policy anon c = False"

fun chats_insert_check :: "role \<Rightarrow> Chat_values \<Rightarrow> bool" where
  "chats_insert_check (authenticated u) v = sql_eq (Some u) (v_sender_id v)"
| "chats_insert_check anon v = False"

text \<open>\<^verbatim>\<open>sender_id\<close>, \<^verbatim>\<open>receiver_id\<close> and \<^verbatim>\<open>message\<close> are \<^verbatim>\<open>NOT NULL\<close> without default.\<close>

definition chats_not_null :: "Chat_values \<Rightarrow> bool" where
  "chats_not_null v = (v_sender_id v \<noteq> None \<and> v_receiver_id v \<noteq> None \<and> v_message v \<noteq> None)"

definition insert_chat ::
  "db \<Rightarrow> role \<Rightarrow> uuid \<Rightarrow> timestamptz \<Rightarrow> Chat_values \<Rightarrow> store_error + db" where
  "insert_chat d r new_id now v =
     (if \<not> chats_insert_check r v then Inl RlsViolation
      else if \<not> chats_not_null v then Inl NotNullViolation
      else case (v_sender_id v, v_receiver_id v, v_message v) of
        (Some s, Some rc, Some m) \<Rightarrow>
          if new_id \<in> set (map chat_id (db_chats d)) then Inl UniqueViolation
          else if s \<notin> set (map profile_id (db_profiles d)) then Inl ForeignKeyViolation
          else if rc \<notin> set (map profile_id (db_profiles d)) then Inl ForeignKeyViolation
          else Inr (d\<lparr>db_chats := db_chats d @
                 [\<lparr>chat_id = new_id, sender_id = s, receiver_id = rc, message = m,
                   created_at = now, read_flag = False\<rparr>]\<rparr>)
      | _ \<Rightarrow> Inl NotNullViolation)"

section \<open>The chat store (\<^verbatim>\<open>useChatStore\<close>)\<close>

record ChatState =
  chats :: "Chat list"
  currentChat :: "Profile option"

text \<open>
  \<^verbatim>\<open>sendMessage\<close>: the inserted object has the keys \<^verbatim>\<open>message\<close> and
  \<^verbatim>\<open>receiver_id\<close> only. \<open>Inl\<close> is \<^verbatim>\<open>throw error\<close>.
\<close>

definition sendMessage_row :: "string \<Rightarrow> uuid \<Rightarrow> Chat_values" where
  "sendMessage_row msg receiverId =
     \<lparr>v_sender_id = None, v_receiver_id = Some receiverId, v_message = Some msg\<rparr>"

definition sendMessage ::
  "db \<Rightarrow> role \<Rightarrow> uuid \<Rightarrow> timestamptz \<Rightarrow> string \<Rightarrow> uuid \<Rightarrow> store_error + db" where
  "sendMessage d r new_id now msg receiverId =
     insert_chat d r new_id now (sendMessage_row msg receiverId)"

text \<open>
  \<^verbatim>\<open>fetchChats\<close>: the query reads the rows the caller's \<^verbatim>\<open>SELECT\<close> policy admits;
  the two \<^verbatim>\<open>.or(...)\<close> groups are both required; \<^verbatim>\<open>.order('created_at',
  { ascending: true })\<close> names \<^verbatim>\<open>created_at\<close> as the only sort key. The order of rows
  with equal \<^verbatim>\<open>created_at\<close> is then the store's to choose: they come in the order in
  which the scan yields them, the order of \<open>db_chats\<close>.
\<close>

definition select_chats :: "db \<Rightarrow> role \<Rightarrow> uuid \<Rightarrow> uuid \<Rightarrow> Chat list" where
  "select_chats d r userId receiverId =
     sort_key created_at
       (filter (\<lambda>c. (sender_id c = userId \<or> receiver_id c = userId) \<and>
                     (sender_id c = receiverId \<or> receiver_id c = receiverId))
          (filter (chats_select_policy r) (db_chats d)))"

definition fetchChats :: "db \<Rightarrow> role \<Rightarrow> ChatState \<Rightarrow> uuid \<Rightarrow> uuid \<Rightarrow> ChatState" where
  "fetchChats d r st userId receiverId = st\<lparr>chats := select_chats d r userId receiverId\<rparr>"

subsection \<open>The realtime subscription\<close>

text \<open>
  \<^verbatim>\<open>subscribeToChats\<close> registers one filter string for \<^verbatim>\<open>INSERT\<close> events on
  \<^verbatim>\<open>chats\<close>.
\<close>

definition subscription_filter :: "uuid \<Rightarrow> string" where
  "subscription_filter userId = ''sender_id=eq.'' @ userId @ '',receiver_id=eq.'' @ userId"

text \<open>
  The change feed reads a filter as one condition \<^verbatim>\<open>column=operator.value\<close>: the
  column is the text before the first \<^verbatim>\<open>=\<close>, the operator the text from there to
  the next \<^verbatim>\<open>.\<close>, the value all that follows.
\<close>

definition split_at_first :: "char \<Rightarrow> string \<Rightarrow> (string \<times> string) option" where
  "split_at_first c s =
     (if c \<in> set s
      then Some (takeWhile (\<lambda>x. x \<noteq> c) s, tl (dropWhile (\<lambda>x. x \<noteq> c) s))
      else None)"

record changes_filter =
  f_column :: string
  f_operator :: string
  f_value :: string

definition parse_filter :: "string \<Rightarrow> changes_filter option" where
  "parse_filter s =
     (case split_at_first CHR ''='' s of
        None \<Rightarrow> None
      | Some (col, rest) \<Rightarrow>
          (case split_at_first CHR ''.'' rest of
             None \<Rightarrow> None
           | Some (operator, v) \<Rightarrow>
               Some \<lparr>f_column = col, f_operator = operator, f_value = v\<rparr>))"

definition chat_column :: "Chat \<Rightarrow> string \<Rightarrow> string option" where
  "chat_column c col =
     (if col = ''id'' then Some (chat_id c)
      else if col = ''sender_id'' then Some (sender_id c)
      else if col = ''receiver_id'' then Some (receiver_id c)
      else if col = ''message'' then Some (message c)
      else None)"

text \<open>
  The filter of \<^verbatim>\<open>subscribeToChats\<close> begins with \<^verbatim>\<open>sender_id=eq.\<close>, so \<^verbatim>\<open>eq\<close> is the
  only operator that arises: the named column's text equals the value.
\<close>

definition filter_matches :: "changes_filter \<Rightarrow> Chat \<Rightarrow> bool" where
  "filter_matches f c =
     (f_operator f = ''eq'' \<and> chat_column c (f_column f) = Some (f_value f))"

text \<open>
  An inserted row reaches a subscriber when the subscriber may read it and the
  subscription's filter matches it.
\<close>

definition delivered :: "role \<Rightarrow> uuid \<Rightarrow> Chat \<Rightarrow> bool" where
  "delivered r userId c =
     (chats_select_policy r c \<and>
      (case parse_filter (subscription_filter userId) of
         None \<Rightarrow> False
       | Some f \<Rightarrow> filter_matches f c))"

text \<open>The callback: \<^verbatim>\<open>set({ chats: [...chats, payload.new] })\<close>.\<close>

definition on_insert :: "ChatState \<Rightarrow> Chat \<Rightarrow> ChatState" where
  "on_insert st c = st\<lparr>chats := chats st @ [c]\<rparr>"

definition subscribeToChats :: "role \<Rightarrow> uuid \<Rightarrow> ChatState \<Rightarrow> Chat \<Rightarrow> ChatState" where
  "subscribeToChats r userId st c = (if delivered r userId c then on_insert st c else st)"

section \<open>Adding a contact (\<^verbatim>\<open>handleAddContact\<close>)\<close>

datatype ui_error =
  User_not_found_with_this_PIN | You_cannot_add_yourself | Failed_to_add_contact
  | An_error_occurred

text \<open>
  \<open>user\<close> is the profile held by the auth store; \<^verbatim>\<open>user!.id\<close> on \<^verbatim>\<open>null\<close>
  throws and the \<^verbatim>\<open>catch\<close> reports it. The result is the error set by
  \<^verbatim>\<open>setError\<close>, if any, and the store afterwards.
\<close>

definition handleAddContact ::
  "db \<Rightarrow> role \<Rightarrow> Profile option \<Rightarrow> string \<Rightarrow> uuid \<Rightarrow> timestamptz \<Rightarrow> ui_error option \<times> db" where
  "handleAddContact d r user pinToAdd new_id now =
     (case select_profile_by_pin d r pinToAdd of
        Inl e \<Rightarrow> (Some User_not_found_with_this_PIN, d)
      | Inr profile \<Rightarrow>
          (case user of
             None \<Rightarrow> (Some An_error_occurred, d)
           | Some u \<Rightarrow>
               if profile_id profile = profile_id u then (Some You_cannot_add_yourself, d)
               else
                 (case insert_connection d r new_id now
                         \<lparr>v_user_id = Some (profile_id u),
                          v_connected_user_id = Some (profile_id profile)\<rparr> of
                    Inl e \<Rightarrow> (Some Failed_to_add_contact, d)
                  | Inr d' \<Rightarrow> (None, d'))))"

section \<open>Signing up (\<^verbatim>\<open>signUp\<close>)\<close>

type_synonym auth_error = string

datatype app_error = AuthError auth_error | StoreError store_error

datatype 'a outcome = Returned 'a | Thrown app_error | Never_returns

text \<open>
  \<^verbatim>\<open>supabase.auth.signUp\<close> is the identity provider's. \<open>Inl\<close> is its error. \<open>Inr\<close> is
  its data: the user, if any (\<^verbatim>\<open>authData.user\<close>), whose account it has then created, and
  whether it has opened a session (it opens none while the address awaits confirmation).
  The requests that follow are the session's, or anonymous.
\<close>

definition session_role :: "uuid \<Rightarrow> bool \<Rightarrow> role" where
  "session_role uid has_session = (if has_session then authenticated uid else anon)"

text \<open>
  \<^verbatim>\<open>signUp\<close>: without a user it returns and sets nothing. \<^verbatim>\<open>generatePin()\<close> is
  awaited before the insert is issued; a call of \<^verbatim>\<open>generate_unique_pin\<close> that never
  returns leaves \<^verbatim>\<open>signUp\<close> pending. \<open>Returned (Some p)\<close> is \<^verbatim>\<open>set({ user: p })\<close>.
\<close>

definition signUp ::
  "db \<Rightarrow> auth_error + (uuid option \<times> bool) \<Rightarrow> string \<Rightarrow> (nat \<Rightarrow> nat) \<Rightarrow> timestamptz
     \<Rightarrow> Profile option outcome \<times> db" where
  "signUp d authResponse displayName rnd now =
     (case authResponse of
        Inl authError \<Rightarrow> (Thrown (AuthError authError), d)
      | Inr (None, has_session) \<Rightarrow> (Returned None, d)
      | Inr (Some uid, has_session) \<Rightarrow>
          let d1 = d\<lparr>auth_users := auth_users d @ [uid]\<rparr>;
              r = session_role uid has_session in
          (case generate_unique_pin r rnd d1 of
             None \<Rightarrow> (Never_returns, d1)
           | Some pin \<Rightarrow>
               (case insert_profile d1 r now
                       \<lparr>v_id = Some uid, v_private_pin = Some pin,
                        v_display_name = Some displayName\<rparr> of
                  Inl profileError \<Rightarrow> (Thrown (StoreError profileError), d1)
                | Inr (d2, profileData) \<Rightarrow> (Returned (Some profileData), d2))))"

section \<open>The specification's words\<close>

text \<open>
  A message between exactly two identities, in either direction, and the order the
  specification asks of a conversation: by \<^verbatim>\<open>created_at\<close> ascending, ties by \<^verbatim>\<open>id\<close>.
\<close>

definition spec_between :: "uuid \<Rightarrow> uuid \<Rightarrow> Chat \<Rightarrow> bool" where
  "spec_between a b c =
     ((sender_id c = a \<and> receiver_id c = b) \<or> (sender_id c = b \<and> receiver_id c = a))"

definition spec_time_then_id :: "Chat \<Rightarrow> Chat \<Rightarrow> bool" where
  "spec_time_then_id m n =
     (created_at m < created_at n \<or> (created_at m = created_at n \<and> chat_id m \<le> chat_id n))"

section \<open>Example stores\<close>

definition ann :: Profile where
  "ann = \<lparr>profile_id = ''u1'', private_pin = ''000042'', display_name = ''Ann'',
           avatar_url = None, profile_created_at = 0, updated_at = 0\<rparr>"

definition bob :: Profile where
  "bob = \<lparr>profile_id = ''u2'', private_pin = ''222222'', display_name = ''Bob'',
           avatar_url = None, profile_created_at = 0, updated_at = 0\<rparr>"

definition cy :: Profile where
  "cy = \<lparr>profile_id = ''u3'', private_pin = ''333333'', display_name = ''Cy'',
          avatar_url = None, profile_created_at = 0, updated_at = 0\<rparr>"

definition d0 :: db where
  "d0 = \<lparr>auth_users = [''u1'', ''u2'', ''u3''], db_profiles = [ann, bob, cy],
         db_connections = [], db_chats = []\<rparr>"

definition st0 :: ChatState where
  "st0 = \<lparr>chats = [], currentChat = None\<rparr>"

text \<open>
  The conversation of the specification's example, \<open>M1 (t = 1)\<close>, \<open>M2 (t = 2)\<close>,
  \<open>M3 (t = 1.5)\<close> in insertion order, among messages of two other conversations.
\<close>

definition M1 :: Chat where
  "M1 = \<lparr>chat_id = ''c1'', sender_id = ''u1'', receiver_id = ''u2'', message = ''one'',
          created_at = 10, read_flag = False\<rparr>"

definition M2 :: Chat where
  "M2 = \<lparr>chat_id = ''c2'', sender_id = ''u2'', receiver_id = ''u1'', message = ''two'',
          created_at = 20, read_flag = False\<rparr>"

definition M3 :: Chat where
  "M3 = \<lparr>chat_id = ''c3'', sender_id = ''u1'', receiver_id = ''u2'', message = ''three'',
          created_at = 15, read_flag = False\<rparr>"

definition M4 :: Chat where
  "M4 = \<lparr>chat_id = ''c4'', sender_id = ''u3'', receiver_id = ''u1'', message = ''four'',
          created_at = 12, read_flag = False\<rparr>"

definition M5 :: Chat where
  "M5 = \<lparr>chat_id = ''c5'', sender_id = ''u2'', receiver_id = ''u3'', message = ''five'',
          created_at = 11, read_flag = False\<rparr>"

definition d_conv :: db where
  "d_conv = d0\<lparr>db_chats := [M1, M2, M3, M4, M5]\<rparr>"

text \<open>Two messages of one instant, the row with the greater id first in the table.\<close>

definition m_b :: Chat where
  "m_b = \<lparr>chat_id = ''b'', sender_id = ''u1'', receiver_id = ''u2'', message = ''first'',
           created_at = 5, read_flag = False\<rparr>"

definition m_a :: Chat where
  "m_a = \<lparr>chat_id = ''a'', sender_id = ''u2'', receiver_id = ''u1'', message = ''second'',
           created_at = 5, read_flag = False\<rparr>"

definition d_ties :: db where
  "d_ties = d0\<lparr>db_chats := [m_b, m_a]\<rparr>"

text \<open>Ann has added Bob already.\<close>

definition d_linked :: db where
  "d_linked = d0\<lparr>db_connections := [connection_row ''k1'' 1 ''u1'' ''u2'']\<rparr>"

text \<open>A run of draws whose first candidate is taken, and one whose every candidate is.\<close>

definition rnd0 :: "nat \<Rightarrow> nat" where
  "rnd0 i = (if i = 0 then 42 else 43)"

definition rnd_stuck :: "nat \<Rightarrow> nat" where
  "rnd_stuck i = 42"

section \<open>Properties of the PIN allocator\<close>

lemma digit_chars_all: "list_all (\<lambda>d. is_digit (digit_char d)) [0..<10]"
  by code_simp

lemma digit_char_is_digit: "d < 10 \<Longrightarrow> is_digit (digit_char d)"
  using digit_chars_all unfolding list_all_iff by simp

lemma text_of_nat_digits: "list_all is_digit (text_of_nat n)"
proof (induction n rule: text_of_nat.induct)
  case (1 n)
  show ?case
  proof (cases "n < 10")
    case True
    then show ?thesis by (subst text_of_nat.simps) (simp add: digit_char_is_digit)
  next
    case False
    then have "list_all is_digit (text_of_nat (n div 10))" using 1 by simp
    moreover have "is_digit (digit_char (n mod 10))" by (simp add: digit_char_is_digit)
    ultimately show ?thesis using False by (subst text_of_nat.simps) simp
  qed
qed

lemma text_of_nat_length: "0 < k \<Longrightarrow> n < 10 ^ k \<Longrightarrow> length (text_of_nat n) \<le> k"
proof (induction n arbitrary: k rule: text_of_nat.induct)
  case (1 n)
  show ?case
  proof (cases "n < 10")
    case True
    then show ?thesis using 1(2) by (subst text_of_nat.simps) simp
  next
    case False
    from False 1(3) have "k \<noteq> 1" by auto
    with 1(2) obtain j where j: "k = Suc j" "0 < j" by (cases k) auto
    have "n < 10 * 10 ^ j" using 1(3) j by simp
    then have "n div 10 < 10 ^ j" by (simp add: less_mult_imp_div_less mult.commute)
    then have "length (text_of_nat (n div 10)) \<le> j" using 1(1)[OF False j(2)] by simp
    then show ?thesis using False j by (subst text_of_nat.simps) simp
  qed
qed

lemma concat_replicate_zero: "concat (replicate k ''0'') = replicate k (CHR ''0'')"
  by (induction k) simp_all

lemma LPAD_zero: "length s \<le> n \<Longrightarrow> LPAD s n ''0'' = replicate (n - length s) (CHR ''0'') @ s"
  by (cases "length s = n") (simp_all add: LPAD_def concat_replicate_zero)

lemma candidate_pin_padded:
  assumes "r < 1000000"
  shows "candidate_pin r = replicate (6 - length (text_of_nat r)) (CHR ''0'') @ text_of_nat r"
proof -
  have "length (text_of_nat r) \<le> 6" using text_of_nat_length[of 6 r] assms by simp
  then show ?thesis by (simp add: candidate_pin_def LPAD_zero)
qed

lemma candidate_pin_regex:
  assumes "r < 1000000"
  shows "matches_pin_regex (candidate_pin r)"
proof -
  have len: "length (text_of_nat r) \<le> 6" using text_of_nat_length[of 6 r] assms by simp
  have "is_digit (CHR ''0'')" by (simp add: is_digit_def)
  then have "list_all is_digit (candidate_pin r)"
    using text_of_nat_digits[of r] by (auto simp: candidate_pin_padded[OF assms] list_all_iff)
  moreover have "length (candidate_pin r) = 6"
    using len by (simp add: candidate_pin_padded[OF assms])
  ultimately show ?thesis by (simp add: matches_pin_regex_def)
qed

lemma pin_taken_iff: "pin_taken ps pin \<longleftrightarrow> (\<exists>p\<in>set ps. private_pin p = pin)"
  by (simp add: pin_taken_def list_ex_iff)

text \<open>The loop leaves at the first draw whose candidate is free.\<close>

lemma loop_first_free:
  "\<not> pin_taken ps (candidate_pin (rnd (i + n))) \<Longrightarrow>
   (\<forall>k. i \<le> k \<and> k < i + n \<longrightarrow> pin_taken ps (candidate_pin (rnd k))) \<Longrightarrow>
   generate_unique_pin_loop rnd ps i = Some (candidate_pin (rnd (i + n)))"
proof (induction n arbitrary: i)
  case 0
  then show ?case by (subst generate_unique_pin_loop.simps) simp
next
  case (Suc n)
  have taken: "pin_taken ps (candidate_pin (rnd i))" using Suc.prems(2) by simp
  have "generate_unique_pin_loop rnd ps (Suc i) = Some (candidate_pin (rnd (Suc i + n)))"
    using Suc.prems by (intro Suc.IH) auto
  then show ?case using taken by (subst generate_unique_pin_loop.simps) simp
qed

text \<open>Whatever the loop returns is the candidate of such a draw.\<close>

lemma loop_returns_free:
  assumes "generate_unique_pin_loop rnd ps i = Some y"
  shows "\<exists>j\<ge>i. y = candidate_pin (rnd j) \<and> \<not> pin_taken ps y \<and>
           (\<forall>k. i \<le> k \<and> k < j \<longrightarrow> pin_taken ps (candidate_pin (rnd k)))"
proof (rule generate_unique_pin_loop.raw_induct
    [where P = "\<lambda>rnd ps i y. \<exists>j\<ge>i. y = candidate_pin (rnd j) \<and> \<not> pin_taken ps y \<and>
                  (\<forall>k. i \<le> k \<and> k < j \<longrightarrow> pin_taken ps (candidate_pin (rnd k)))", OF _ assms])
  fix loop :: "(nat \<Rightarrow> nat) \<Rightarrow> Profile list \<Rightarrow> nat \<Rightarrow> string option"
  fix rnd ps i y
  assume IH: "\<And>rnd ps i y. loop rnd ps i = Some y \<Longrightarrow>
                \<exists>j\<ge>i. y = candidate_pin (rnd j) \<and> \<not> pin_taken ps y \<and>
                  (\<forall>k. i \<le> k \<and> k < j \<longrightarrow> pin_taken ps (candidate_pin (rnd k)))"
  assume body: "(let new_pin = candidate_pin (rnd i); pin_exists = pin_taken ps new_pin
                 in if \<not> pin_exists then Some new_pin else loop rnd ps (Suc i)) = Some y"
  show "\<exists>j\<ge>i. y = candidate_pin (rnd j) \<and> \<not> pin_taken ps y \<and>
          (\<forall>k. i \<le> k \<and> k < j \<longrightarrow> pin_taken ps (candidate_pin (rnd k)))"
  proof (cases "pin_taken ps (candidate_pin (rnd i))")
    case True
    with body have "loop rnd ps (Suc i) = Some y" by simp
    from IH[OF this] obtain j where j: "Suc i \<le> j" "y = candidate_pin (rnd j)"
      "\<not> pin_taken ps y" "\<forall>k. Suc i \<le> k \<and> k < j \<longrightarrow> pin_taken ps (candidate_pin (rnd k))"
      by blast
    have "\<forall>k. i \<le> k \<and> k < j \<longrightarrow> pin_taken ps (candidate_pin (rnd k))"
    proof (intro allI impI)
      fix k assume k: "i \<le> k \<and> k < j"
      show "pin_taken ps (candidate_pin (rnd k))"
      proof (cases "k = i")
        case True
        then show ?thesis using \<open>pin_taken ps (candidate_pin (rnd i))\<close> by simp
      next
        case False
        then show ?thesis using k j(4) by simp
      qed
    qed
    with j show ?thesis by (intro exI[of _ j]) simp
  next
    case False
    with body have "y = candidate_pin (rnd i)" by simp
    with False show ?thesis by (intro exI[of _ i]) auto
  qed
qed

lemma loop_all_taken:
  assumes "\<forall>k. pin_taken ps (candidate_pin (rnd k))"
  shows "generate_unique_pin_loop rnd ps i = None"
proof (cases "generate_unique_pin_loop rnd ps i")
  case None
  then show ?thesis .
next
  case (Some y)
  from loop_returns_free[OF this] assms show ?thesis by auto
qed

lemma candidate_42: "candidate_pin 42 = ''000042''"
  by code_simp

lemma read_authenticated: "filter (profiles_select_policy (authenticated u)) ps = ps"
  by (induction ps) simp_all

lemma read_anon: "filter (profiles_select_policy anon) ps = []"
  by (induction ps) simp_all

text \<open>
  With a session the function reads every profile: it returns the candidate of the first
  draw that no profile holds, a string of six digits, and never returns when every
  candidate is held.
\<close>

lemma generate_unique_pin_authenticated:
  assumes "\<forall>i. rnd i < 1000000" and "generate_unique_pin (authenticated u) rnd d = Some pin"
  shows "matches_pin_regex pin \<and> (\<forall>p\<in>set (db_profiles d). private_pin p \<noteq> pin)"
proof -
  from assms(2) obtain j where j: "pin = candidate_pin (rnd j)" "\<not> pin_taken (db_profiles d) pin"
    unfolding generate_unique_pin_def read_authenticated by (blast dest: loop_returns_free)
  have "matches_pin_regex pin" using assms(1) j(1) by (simp add: candidate_pin_regex)
  moreover have "\<forall>p\<in>set (db_profiles d). private_pin p \<noteq> pin"
    using j(2) by (auto simp: pin_taken_iff)
  ultimately show ?thesis by simp
qed

lemma generate_unique_pin_authenticated_first_free:
  assumes "\<not> list_ex (\<lambda>p. private_pin p = candidate_pin (rnd j)) (db_profiles d)"
    and "\<forall>k<j. list_ex (\<lambda>p. private_pin p = candidate_pin (rnd k)) (db_profiles d)"
  shows "generate_unique_pin (authenticated u) rnd d = Some (candidate_pin (rnd j))"
proof -
  have "generate_unique_pin_loop rnd (db_profiles d) 0 = Some (candidate_pin (rnd (0 + j)))"
    using assms by (intro loop_first_free) (simp_all add: pin_taken_def)
  then show ?thesis by (simp add: generate_unique_pin_def read_authenticated)
qed

lemma generate_unique_pin_authenticated_all_taken:
  assumes "\<forall>k. list_ex (\<lambda>p. private_pin p = candidate_pin (rnd k)) (db_profiles d)"
  shows "generate_unique_pin (authenticated u) rnd d = None"
  using assms by (simp add: generate_unique_pin_def read_authenticated loop_all_taken pin_taken_def)

text \<open>Without a session it reads no profile and returns the candidate of its first draw.\<close>

lemma generate_unique_pin_anon: "generate_unique_pin anon rnd d = Some (candidate_pin (rnd 0))"
proof -
  have "generate_unique_pin_loop rnd [] 0 = Some (candidate_pin (rnd (0 + 0)))"
    by (rule loop_first_free) (simp_all add: pin_taken_def)
  then show ?thesis by (simp add: generate_unique_pin_def read_anon)
qed

lemma generate_unique_pin_profiles:
  "db_profiles d' = db_profiles d \<Longrightarrow> generate_unique_pin r rnd d' = generate_unique_pin r rnd d"
  by (simp add: generate_unique_pin_def)

text \<open>
  C5 does not hold of the code for a caller without a session. The string returned has
  six digits, but the \<^verbatim>\<open>EXISTS\<close> check of \<^verbatim>\<open>generate_unique_pin\<close> reads no row of
  \<^verbatim>\<open>profiles\<close> then: with the first draw \<open>42\<close> the function returns \<open>000042\<close>, the pin
  of an existing profile.
\<close>

theorem generate_unique_pin_sessionless_returns_taken:
  "rnd0 0 = 42 \<and>
   generate_unique_pin anon rnd0 d0 = Some ''000042'' \<and>
   matches_pin_regex ''000042'' \<and>
   ann \<in> set (db_profiles d0) \<and> private_pin ann = ''000042''"
proof -
  have "generate_unique_pin anon rnd0 d0 = Some ''000042''"
    by (simp add: generate_unique_pin_anon rnd0_def candidate_42)
  moreover have "matches_pin_regex ''000042''"
    using candidate_pin_regex[of 42] by (simp add: candidate_42)
  ultimately show ?thesis by (simp add: rnd0_def d0_def ann_def)
qed

text \<open>
  C10 does not hold of the code for a caller without a session. Every draw of
  \<open>rnd_stuck\<close> gives the candidate \<open>000042\<close>, which a current profile holds, so every
  candidate collides; the loop does not look among the current profiles, leaves at its
  first iteration and returns the colliding candidate.
\<close>

theorem generate_unique_pin_sessionless_leaves_loop:
  "(\<forall>k. candidate_pin (rnd_stuck k) = ''000042'') \<and>
   list_ex (\<lambda>p. private_pin p = ''000042'') (db_profiles d0) \<and>
   generate_unique_pin anon rnd_stuck d0 = Some ''000042''"
proof -
  have "generate_unique_pin anon rnd_stuck d0 = Some ''000042''"
    by (simp add: generate_unique_pin_anon rnd_stuck_def candidate_42)
  then show ?thesis by (simp add: rnd_stuck_def candidate_42 d0_def ann_def)
qed

section \<open>Properties of the chat store\<close>

text \<open>
  C4. The row that \<^verbatim>\<open>sendMessage\<close> inserts has a message and a receiver and no
  \<^verbatim>\<open>sender_id\<close>; it fails the insert policy \<^verbatim>\<open>auth.uid() = sender_id\<close> and the
  \<^verbatim>\<open>NOT NULL\<close> constraint, so for every input the store rejects the insert and
  \<^verbatim>\<open>sendMessage\<close> throws.
\<close>

theorem sendMessage_always_throws:
  "v_sender_id (sendMessage_row msg receiverId) = None \<and>
   \<not> chats_insert_check r (sendMessage_row msg receiverId) \<and>
   \<not> chats_not_null (sendMessage_row msg receiverId) \<and>
   sendMessage d r new_id now msg receiverId = Inl RlsViolation"
  by (cases r) (simp_all add: sendMessage_def sendMessage_row_def insert_chat_def chats_not_null_def)

lemma select_chats_between:
  assumes "a \<noteq> b"
  shows "select_chats d (authenticated a) a b =
           sort_key created_at (filter (spec_between a b) (db_chats d))"
proof -
  have "\<And>c. (chats_select_policy (authenticated a) c \<and>
             (sender_id c = a \<or> receiver_id c = a) \<and> (sender_id c = b \<or> receiver_id c = b))
            = spec_between a b c"
    using assms by (auto simp: spec_between_def)
  then show ?thesis by (simp add: select_chats_def conj_commute)
qed

lemma d_ties_fetched:
  "chats (fetchChats d_ties (authenticated ''u1'') st0 ''u1'' ''u2'') = [m_b, m_a]"
  by (simp add: fetchChats_def select_chats_def d_ties_def m_a_def m_b_def)

lemma d_conv_fetched:
  "chats (fetchChats d_conv (authenticated ''u1'') st0 ''u1'' ''u2'') = [M1, M3, M2]"
  by (simp add: fetchChats_def select_chats_def d_conv_def M1_def M2_def M3_def M4_def M5_def)

text \<open>
  C1, as stated, fails: two messages of one conversation with the same \<^verbatim>\<open>created_at\<close>
  come back in the table's row order, the greater id first.
\<close>

theorem fetchChats_ties_not_by_id:
  "\<not> sorted_wrt spec_time_then_id
       (chats (fetchChats d_ties (authenticated ''u1'') st0 ''u1'' ''u2''))"
  by (simp add: d_ties_fetched spec_time_then_id_def m_a_def m_b_def)

text \<open>
  C1, amended. For distinct users \<open>a\<close> and \<open>b\<close>, \<^verbatim>\<open>fetchChats(a, b)\<close> issued by
  \<open>a\<close> leaves in the store's \<^verbatim>\<open>chats\<close> exactly the messages between \<open>a\<close> and \<open>b\<close>
  in either direction, each once, ordered by \<^verbatim>\<open>created_at\<close> ascending; nothing orders
  messages of equal \<^verbatim>\<open>created_at\<close> by id.
\<close>

theorem fetchChats_conversation:
  assumes "a \<noteq> b"
  shows "mset (chats (fetchChats d (authenticated a) st a b))
           = mset (filter (spec_between a b) (db_chats d)) \<and>
         sorted (map created_at (chats (fetchChats d (authenticated a) st a b)))"
  by (simp add: fetchChats_def select_chats_between[OF assms])

theorem fetchChats_conversation_witness:
  "''u1'' \<noteq> ''u2'' \<and>
   chats (fetchChats d_conv (authenticated ''u1'') st0 ''u1'' ''u2'') = [M1, M3, M2] \<and>
   mset [M1, M3, M2] = mset (filter (spec_between ''u1'' ''u2'') (db_chats d_conv)) \<and>
   sorted (map created_at [M1, M3, M2])"
proof -
  have h: "''u1'' \<noteq> ''u2''" by simp
  from fetchChats_conversation[OF h, of d_conv st0] h show ?thesis
    by (simp add: d_conv_fetched)
qed

text \<open>
  C8. A message from \<open>A\<close> to \<open>B\<close> is in no result of \<^verbatim>\<open>fetchChats\<close> issued by a third
  identity \<open>C\<close>, whatever the two arguments: the \<^verbatim>\<open>SELECT\<close> policy admits a row only
  for its sender and its receiver.
\<close>

theorem fetchChats_hides_from_third:
  assumes "sender_id m \<noteq> c" and "receiver_id m \<noteq> c"
  shows "\<not> chats_select_policy (authenticated c) m \<and>
         m \<notin> set (chats (fetchChats d (authenticated c) st x y))"
  using assms by (simp add: fetchChats_def select_chats_def)

theorem fetchChats_hides_from_third_witness:
  "sender_id M1 \<noteq> ''u3'' \<and> receiver_id M1 \<noteq> ''u3'' \<and> M1 \<in> set (db_chats d_conv) \<and>
   \<not> chats_select_policy (authenticated ''u3'') M1 \<and>
   M1 \<notin> set (chats (fetchChats d_conv (authenticated ''u3'') st0 ''u3'' ''u1''))"
proof -
  have h1: "sender_id M1 \<noteq> ''u3''" and h2: "receiver_id M1 \<noteq> ''u3''"
    by (simp_all add: M1_def)
  have h3: "M1 \<in> set (db_chats d_conv)" by (simp add: d_conv_def)
  from fetchChats_hides_from_third[OF h1 h2, of d_conv st0 "''u3''" "''u1''"] h1 h2 h3
  show ?thesis by simp
qed

subsection \<open>The realtime subscription\<close>

lemma subscription_filter_parsed:
  "parse_filter (subscription_filter u) =
     Some \<lparr>f_column = ''sender_id'', f_operator = ''eq'',
           f_value = u @ '',receiver_id=eq.'' @ u\<rparr>"
  by (simp add: parse_filter_def subscription_filter_def split_at_first_def)

lemma delivered_iff:
  "delivered r u c \<longleftrightarrow>
     chats_select_policy r c \<and> sender_id c = u @ '',receiver_id=eq.'' @ u"
  by (simp add: delivered_def subscription_filter_parsed filter_matches_def chat_column_def)

lemma own_message_not_delivered: "sender_id c = u \<Longrightarrow> \<not> delivered r u c"
  by (simp add: delivered_iff)

text \<open>
  C3 does not hold of the code. After \<^verbatim>\<open>subscribeToChats(''u1'')\<close>, neither a message
  from \<open>u1\<close> to \<open>u2\<close> nor one from \<open>u2\<close> to \<open>u1\<close> reaches the callback: the one
  filter string is read as a condition on \<^verbatim>\<open>sender_id\<close> alone, with a value no
  identity equals, and \<^verbatim>\<open>chats\<close> stays as it was.
\<close>

theorem subscribeToChats_drops_own_conversation:
  "parse_filter (subscription_filter ''u1'') =
     Some \<lparr>f_column = ''sender_id'', f_operator = ''eq'', f_value = ''u1,receiver_id=eq.u1''\<rparr> \<and>
   \<not> delivered (authenticated ''u1'') ''u1'' M1 \<and>
   \<not> delivered (authenticated ''u1'') ''u1'' M2 \<and>
   chats (subscribeToChats (authenticated ''u1'') ''u1'' st0 M1) = chats st0 \<and>
   chats (subscribeToChats (authenticated ''u1'') ''u1'' st0 M2) = chats st0"
  by (simp add: subscribeToChats_def delivered_iff subscription_filter_parsed M1_def M2_def)


section \<open>Properties of the profiles policies\<close>

lemma profiles_readable_by_authenticated: "profiles_select_policy (authenticated u) p"
  by simp

lemma profiles_update_owner_only:
  "profiles_update_policy (authenticated u) p \<longleftrightarrow> u = profile_id p"
  by simp

lemma insert_profile_denied: "insert_profile d r now v = Inl RlsViolation"
  by (cases r) (simp_all add: insert_profile_def)

text \<open>
  C7 does not hold of the code where it says that the row's own identity can insert it.
  Any authenticated caller may read a profile and only its owner may update it, but the
  insert that \<^verbatim>\<open>signUp\<close> issues, by the session of the new account for its own row, is
  denied: \<^verbatim>\<open>profiles\<close> has row-level security enabled and no \<^verbatim>\<open>INSERT\<close> policy.
\<close>

theorem profiles_owner_insert_denied:
  "profiles_select_policy (authenticated ''u1'') bob \<and>
   profiles_update_policy (authenticated ''u2'') bob \<and>
   \<not> profiles_update_policy (authenticated ''u1'') bob \<and>
   \<not> profiles_insert_check (authenticated ''u4'')
       \<lparr>v_id = Some ''u4'', v_private_pin = Some ''000043'', v_display_name = Some ''Di''\<rparr> \<and>
   insert_profile (d0\<lparr>auth_users := auth_users d0 @ [''u4'']\<rparr>) (authenticated ''u4'') 7
       \<lparr>v_id = Some ''u4'', v_private_pin = Some ''000043'', v_display_name = Some ''Di''\<rparr>
     = Inl RlsViolation"
  by (simp add: insert_profile_denied bob_def)

section \<open>Properties of adding a contact\<close>

lemma filter_unique_pin:
  "distinct (map private_pin ps) \<Longrightarrow> t \<in> set ps \<Longrightarrow>
   filter (\<lambda>p. private_pin p = private_pin t) ps = [t]"
proof (induction ps)
  case Nil
  then show ?case by simp
next
  case (Cons p ps)
  show ?case
  proof (cases "p = t")
    case True
    have "private_pin t \<notin> private_pin ` set ps" using Cons.prems(1) True by simp
    then have "\<forall>q\<in>set ps. private_pin q \<noteq> private_pin t" by (metis imageI)
    then have "filter (\<lambda>q. private_pin q = private_pin t) ps = []"
      by (simp add: filter_empty_conv)
    then show ?thesis using True by simp
  next
    case False
    then have t: "t \<in> set ps" using Cons.prems(2) by simp
    then have "private_pin p \<noteq> private_pin t" using Cons.prems(1) by auto
    then show ?thesis using Cons.IH t Cons.prems(1) by simp
  qed
qed

lemma select_profile_found:
  "distinct (map private_pin (db_profiles d)) \<Longrightarrow> t \<in> set (db_profiles d) \<Longrightarrow>
   select_profile_by_pin d (authenticated u) (private_pin t) = Inr t"
  by (simp add: select_profile_by_pin_def read_authenticated filter_unique_pin)

lemma select_profile_missing:
  assumes "\<not> pin_taken (db_profiles d) pin"
  shows "select_profile_by_pin d r pin = Inl NotSingleRow"
proof -
  have "filter (\<lambda>p. private_pin p = pin) (filter (profiles_select_policy r) (db_profiles d)) = []"
    using assms by (auto simp: pin_taken_iff filter_empty_conv)
  then show ?thesis by (simp add: select_profile_by_pin_def)
qed

lemma select_profile_same_profiles:
  "db_profiles d' = db_profiles d \<Longrightarrow> select_profile_by_pin d' r pin = select_profile_by_pin d r pin"
  by (simp add: select_profile_by_pin_def)

lemma insert_connection_own:
  "insert_connection d (authenticated a) new_id now
       \<lparr>v_user_id = Some a, v_connected_user_id = Some b\<rparr> =
     (if new_id \<in> set (map connection_id (db_connections d)) then Inl UniqueViolation
      else if edge_exists (db_connections d) a b then Inl UniqueViolation
      else if a \<notin> set (map profile_id (db_profiles d)) then Inl ForeignKeyViolation
      else if b \<notin> set (map profile_id (db_profiles d)) then Inl ForeignKeyViolation
      else Inr (d\<lparr>db_connections := db_connections d @ [connection_row new_id now a b]\<rparr>))"
  by (simp add: insert_connection_def)

lemma insert_connection_accepted:
  assumes "insert_connection d r new_id now \<lparr>v_user_id = Some a, v_connected_user_id = Some b\<rparr> = Inr d'"
  shows "r = authenticated a \<and> \<not> edge_exists (db_connections d) a b \<and>
         d' = d\<lparr>db_connections := db_connections d @ [connection_row new_id now a b]\<rparr>"
proof (cases r)
  case anon
  with assms show ?thesis by (simp add: insert_connection_def)
next
  case (authenticated u)
  with assms have "u = a" by (auto simp: insert_connection_def split: if_splits)
  with assms authenticated show ?thesis
    by (auto simp: insert_connection_own split: if_splits)
qed

lemma insert_connection_duplicate:
  "edge_exists (db_connections d) a b \<Longrightarrow>
   insert_connection d (authenticated a) new_id now
       \<lparr>v_user_id = Some a, v_connected_user_id = Some b\<rparr> = Inl UniqueViolation"
  by (simp add: insert_connection_own)

lemma handleAddContact_accepted:
  assumes "handleAddContact d r user pin new_id now = (None, d')"
  shows "\<exists>u t. user = Some u \<and> select_profile_by_pin d r pin = Inr t \<and>
           profile_id t \<noteq> profile_id u \<and>
           insert_connection d r new_id now
             \<lparr>v_user_id = Some (profile_id u), v_connected_user_id = Some (profile_id t)\<rparr> = Inr d'"
  using assms
  by (auto simp: handleAddContact_def split: sum.splits option.splits if_splits)

lemma count_edge_after_insert:
  "\<not> edge_exists cs a b \<Longrightarrow>
   length (filter (\<lambda>c. user_id c = a \<and> connected_user_id c = b) (cs @ [connection_row i n a b])) = 1"
proof -
  assume "\<not> edge_exists cs a b"
  then have "filter (\<lambda>c. user_id c = a \<and> connected_user_id c = b) cs = []"
    by (auto simp: edge_exists_def list_ex_iff filter_empty_conv)
  then show ?thesis by (simp add: connection_row_def)
qed

lemma d0_pins: "distinct (map private_pin (db_profiles d0))"
  by (simp add: d0_def ann_def bob_def cy_def)

lemma d_linked_lookup: "select_profile_by_pin d_linked (authenticated ''u1'') ''222222'' = Inr bob"
  by (simp add: select_profile_by_pin_def d_linked_def d0_def ann_def bob_def cy_def)

lemma d_linked_second_call:
  "handleAddContact d_linked (authenticated ''u1'') (Some ann) ''222222'' ''k2'' 2
     = (Some Failed_to_add_contact, d_linked)"
proof -
  have "edge_exists (db_connections d_linked) ''u1'' ''u2''"
    by (simp add: d_linked_def edge_exists_def connection_row_def)
  then have "insert_connection d_linked (authenticated ''u1'') ''k2'' 2
       \<lparr>v_user_id = Some ''u1'', v_connected_user_id = Some ''u2''\<rparr> = Inl UniqueViolation"
    by (rule insert_connection_duplicate)
  then show ?thesis
    by (simp add: handleAddContact_def d_linked_lookup ann_def bob_def)
qed

lemma d0_first_call:
  "handleAddContact d0 (authenticated ''u1'') (Some ann) ''222222'' ''k1'' 1 = (None, d_linked)"
proof -
  have l: "select_profile_by_pin d0 (authenticated ''u1'') ''222222'' = Inr bob"
    by (simp add: select_profile_by_pin_def d0_def ann_def bob_def cy_def)
  have "insert_connection d0 (authenticated ''u1'') ''k1'' 1
       \<lparr>v_user_id = Some ''u1'', v_connected_user_id = Some ''u2''\<rparr> = Inr d_linked"
    by (simp add: insert_connection_own d_linked_def d0_def edge_exists_def ann_def bob_def cy_def)
  then show ?thesis by (simp add: handleAddContact_def l ann_def bob_def)
qed

text \<open>
  C2, as stated, fails: when the requester has added the target before, the profile is
  found and is not the requester's, yet no edge is created.
\<close>

theorem handleAddContact_existing_edge_creates_none:
  "select_profile_by_pin d_linked (authenticated ''u1'') ''222222'' = Inr bob \<and>
   profile_id bob \<noteq> profile_id ann \<and>
   handleAddContact d_linked (authenticated ''u1'') (Some ann) ''222222'' ''k2'' 2
     = (Some Failed_to_add_contact, d_linked)"
proof -
  have "profile_id bob \<noteq> profile_id ann" by (simp add: ann_def bob_def)
  then show ?thesis by (simp add: d_linked_lookup d_linked_second_call)
qed

text \<open>
  C2, amended. For a signed-in user \<open>u\<close> (the session is \<open>u\<close>'s, and \<open>u\<close> has a profile)
  and a store whose pins are unique, \<^verbatim>\<open>handleAddContact\<close> looks the pin up; when no
  profile has it, it fails with ``User not found with this PIN''; when the profile found
  is \<open>u\<close>'s own, with ``You cannot add yourself''; otherwise, when the edge from \<open>u\<close> to the
  target exists already, the insert is rejected, it fails with ``Failed to add contact''
  and the store is unchanged; and when it does not exist, exactly one row, the edge from
  \<open>u\<close> to the target, is appended to \<^verbatim>\<open>connections\<close>, and no edge from the target to
  \<open>u\<close> is created.
\<close>

theorem handleAddContact_steps:
  assumes pins: "distinct (map private_pin (db_profiles d))"
    and user: "u \<in> set (db_profiles d)"
    and fresh: "new_id \<notin> set (map connection_id (db_connections d))"
  shows "(\<not> pin_taken (db_profiles d) pin \<longrightarrow>
            handleAddContact d (authenticated (profile_id u)) (Some u) pin new_id now
              = (Some User_not_found_with_this_PIN, d)) \<and>
         (t \<in> set (db_profiles d) \<and> profile_id t = profile_id u \<longrightarrow>
            handleAddContact d (authenticated (profile_id u)) (Some u) (private_pin t) new_id now
              = (Some You_cannot_add_yourself, d)) \<and>
         (t \<in> set (db_profiles d) \<and> profile_id t \<noteq> profile_id u \<and>
          edge_exists (db_connections d) (profile_id u) (profile_id t) \<longrightarrow>
            handleAddContact d (authenticated (profile_id u)) (Some u) (private_pin t) new_id now
              = (Some Failed_to_add_contact, d)) \<and>
         (t \<in> set (db_profiles d) \<and> profile_id t \<noteq> profile_id u \<and>
          \<not> edge_exists (db_connections d) (profile_id u) (profile_id t) \<longrightarrow>
            handleAddContact d (authenticated (profile_id u)) (Some u) (private_pin t) new_id now
              = (None, d\<lparr>db_connections := db_connections d @
                   [connection_row new_id now (profile_id u) (profile_id t)]\<rparr>) \<and>
            user_id (connection_row new_id now (profile_id u) (profile_id t)) = profile_id u \<and>
            connected_user_id (connection_row new_id now (profile_id u) (profile_id t))
              = profile_id t \<and>
            edge_exists
               (db_connections d @ [connection_row new_id now (profile_id u) (profile_id t)])
               (profile_id t) (profile_id u)
              = edge_exists (db_connections d) (profile_id t) (profile_id u))"
proof -
  let ?r = "authenticated (profile_id u)"
  let ?e = "connection_row new_id now (profile_id u) (profile_id t)"
  have missing: "handleAddContact d ?r (Some u) pin new_id now
                   = (Some User_not_found_with_this_PIN, d)"
    if "\<not> pin_taken (db_profiles d) pin"
    using that by (simp add: handleAddContact_def select_profile_missing)
  have own: "handleAddContact d ?r (Some u) (private_pin t) new_id now
               = (Some You_cannot_add_yourself, d)"
    if "t \<in> set (db_profiles d)" "profile_id t = profile_id u"
    using that pins by (simp add: handleAddContact_def select_profile_found)
  have dup: "handleAddContact d ?r (Some u) (private_pin t) new_id now
               = (Some Failed_to_add_contact, d)"
    if "t \<in> set (db_profiles d)" "profile_id t \<noteq> profile_id u"
       "edge_exists (db_connections d) (profile_id u) (profile_id t)"
    using that pins by (simp add: handleAddContact_def select_profile_found insert_connection_own)
  have ok: "handleAddContact d ?r (Some u) (private_pin t) new_id now
              = (None, d\<lparr>db_connections := db_connections d @ [?e]\<rparr>)"
    if "t \<in> set (db_profiles d)" "profile_id t \<noteq> profile_id u"
       "\<not> edge_exists (db_connections d) (profile_id u) (profile_id t)"
    using that pins user fresh
    by (simp add: handleAddContact_def select_profile_found insert_connection_own)
  have ends: "user_id ?e = profile_id u \<and> connected_user_id ?e = profile_id t"
    by (simp add: connection_row_def)
  have recip: "edge_exists (db_connections d @ [?e]) (profile_id t) (profile_id u)
                = edge_exists (db_connections d) (profile_id t) (profile_id u)"
    if "profile_id t \<noteq> profile_id u"
    using that by (auto simp: edge_exists_def connection_row_def)
  show ?thesis using missing own dup ok ends recip by blast
qed

theorem handleAddContact_steps_witness:
  "distinct (map private_pin (db_profiles d0)) \<and> ann \<in> set (db_profiles d0) \<and>
   ''k1'' \<notin> set (map connection_id (db_connections d0)) \<and>
   \<not> pin_taken (db_profiles d0) ''999999'' \<and>
   handleAddContact d0 (authenticated ''u1'') (Some ann) ''999999'' ''k1'' 1
     = (Some User_not_found_with_this_PIN, d0) \<and>
   handleAddContact d0 (authenticated ''u1'') (Some ann) ''000042'' ''k1'' 1
     = (Some You_cannot_add_yourself, d0) \<and>
   bob \<in> set (db_profiles d0) \<and> profile_id bob \<noteq> profile_id ann \<and>
   \<not> edge_exists (db_connections d0) ''u1'' ''u2'' \<and>
   handleAddContact d0 (authenticated ''u1'') (Some ann) ''222222'' ''k1'' 1
     = (None, d0\<lparr>db_connections := [connection_row ''k1'' 1 ''u1'' ''u2'']\<rparr>) \<and>
   \<not> edge_exists [connection_row ''k1'' 1 ''u1'' ''u2''] ''u2'' ''u1'' \<and>
   ann \<in> set (db_profiles d_linked) \<and>
   edge_exists (db_connections d_linked) ''u1'' ''u2'' \<and>
   handleAddContact d_linked (authenticated ''u1'') (Some ann) ''222222'' ''k2'' 2
     = (Some Failed_to_add_contact, d_linked)"
proof -
  have pins: "distinct (map private_pin (db_profiles d0))" by (rule d0_pins)
  have pins': "distinct (map private_pin (db_profiles d_linked))"
    using d0_pins by (simp add: d_linked_def)
  have ann0: "ann \<in> set (db_profiles d0)" and bob0: "bob \<in> set (db_profiles d0)"
    by (simp_all add: d0_def)
  have ann1: "ann \<in> set (db_profiles d_linked)" and bob1: "bob \<in> set (db_profiles d_linked)"
    by (simp_all add: d_linked_def d0_def)
  have fresh0: "''k1'' \<notin> set (map connection_id (db_connections d0))" by (simp add: d0_def)
  have fresh1: "''k2'' \<notin> set (map connection_id (db_connections d_linked))"
    by (simp add: d_linked_def connection_row_def)
  have ids: "profile_id ann = ''u1''" "profile_id bob = ''u2''"
            "private_pin ann = ''000042''" "private_pin bob = ''222222''"
    by (simp_all add: ann_def bob_def)
  have free: "\<not> pin_taken (db_profiles d0) ''999999''"
    by (simp add: pin_taken_def d0_def ann_def bob_def cy_def)
  have e0: "\<not> edge_exists (db_connections d0) ''u1'' ''u2''"
    by (simp add: edge_exists_def d0_def)
  have e1: "edge_exists (db_connections d_linked) ''u1'' ''u2''"
    by (simp add: edge_exists_def d_linked_def connection_row_def)
  have r: "\<not> edge_exists [connection_row ''k1'' 1 ''u1'' ''u2''] ''u2'' ''u1''"
    by (simp add: edge_exists_def connection_row_def)
  have c0: "db_connections d0 = []" by (simp add: d0_def)
  note a = handleAddContact_steps[OF pins ann0 fresh0, where pin = "''999999''" and t = ann and now = 1]
  note b = handleAddContact_steps[OF pins ann0 fresh0, where pin = "''999999''" and t = bob and now = 1]
  note c = handleAddContact_steps[OF pins' ann1 fresh1, where pin = "''999999''" and t = bob and now = 2]
  have 1: "handleAddContact d0 (authenticated ''u1'') (Some ann) ''999999'' ''k1'' 1
     = (Some User_not_found_with_this_PIN, d0)"
    using a[THEN conjunct1] free by (simp add: ids)
  have 2: "handleAddContact d0 (authenticated ''u1'') (Some ann) ''000042'' ''k1'' 1
     = (Some You_cannot_add_yourself, d0)"
    using a[THEN conjunct2, THEN conjunct1] ann0 by (simp add: ids)
  have 3: "handleAddContact d0 (authenticated ''u1'') (Some ann) ''222222'' ''k1'' 1
     = (None, d0\<lparr>db_connections := [connection_row ''k1'' 1 ''u1'' ''u2'']\<rparr>)"
    using b[THEN conjunct2, THEN conjunct2, THEN conjunct2] bob0 e0 by (simp add: ids c0)
  have 4: "handleAddContact d_linked (authenticated ''u1'') (Some ann) ''222222'' ''k2'' 2
     = (Some Failed_to_add_contact, d_linked)"
    using c[THEN conjunct2, THEN conjunct2, THEN conjunct1] bob1 e1 by (simp add: ids)
  show ?thesis using pins ann0 fresh0 free 1 2 bob0 e0 3 r ann1 e1 4 by (simp add: ids)
qed

text \<open>
  C6. After \<^verbatim>\<open>handleAddContact\<close> has added a contact, a second call by the same
  user with the same pin fails with ``Failed to add contact'': the insert is rejected
  by \<^verbatim>\<open>UNIQUE(user_id, connected_user_id)\<close>, the store is unchanged, and the edge is
  there once.
\<close>

theorem handleAddContact_twice_fails:
  assumes "handleAddContact d r user pin new_id now = (None, d')"
  shows "handleAddContact d' r user pin new_id' now' = (Some Failed_to_add_contact, d') \<and>
         (\<exists>u t. user = Some u \<and> select_profile_by_pin d' r pin = Inr t \<and>
            insert_connection d' r new_id' now'
              \<lparr>v_user_id = Some (profile_id u), v_connected_user_id = Some (profile_id t)\<rparr>
              = Inl UniqueViolation \<and>
            length (filter (\<lambda>c. user_id c = profile_id u \<and> connected_user_id c = profile_id t)
                      (db_connections d')) = 1)"
proof -
  from handleAddContact_accepted[OF assms] obtain u t where
    u: "user = Some u" and t: "select_profile_by_pin d r pin = Inr t" and
    ne: "profile_id t \<noteq> profile_id u" and
    ins: "insert_connection d r new_id now
            \<lparr>v_user_id = Some (profile_id u), v_connected_user_id = Some (profile_id t)\<rparr> = Inr d'"
    by blast
  from insert_connection_accepted[OF ins] have
    r: "r = authenticated (profile_id u)" and
    no: "\<not> edge_exists (db_connections d) (profile_id u) (profile_id t)" and
    d': "d' = d\<lparr>db_connections := db_connections d @
                  [connection_row new_id now (profile_id u) (profile_id t)]\<rparr>"
    by simp_all
  have prof: "db_profiles d' = db_profiles d" unfolding d' by simp
  have conn: "db_connections d' = db_connections d @
                [connection_row new_id now (profile_id u) (profile_id t)]"
    unfolding d' by simp
  have t': "select_profile_by_pin d' r pin = Inr t"
    using t select_profile_same_profiles[OF prof] by simp
  have "edge_exists (db_connections d') (profile_id u) (profile_id t)"
    unfolding conn by (simp add: edge_exists_def connection_row_def)
  then have rej: "insert_connection d' r new_id' now'
      \<lparr>v_user_id = Some (profile_id u), v_connected_user_id = Some (profile_id t)\<rparr>
      = Inl UniqueViolation"
    unfolding r by (rule insert_connection_duplicate)
  have once: "length (filter (\<lambda>c. user_id c = profile_id u \<and> connected_user_id c = profile_id t)
                      (db_connections d')) = 1"
    unfolding conn by (rule count_edge_after_insert[OF no])
  have "handleAddContact d' r user pin new_id' now' = (Some Failed_to_add_contact, d')"
    by (simp add: handleAddContact_def u t' ne rej)
  then show ?thesis using u t' rej once by blast
qed

theorem handleAddContact_twice_fails_witness:
  "handleAddContact d0 (authenticated ''u1'') (Some ann) ''222222'' ''k1'' 1 = (None, d_linked) \<and>
   handleAddContact d_linked (authenticated ''u1'') (Some ann) ''222222'' ''k2'' 2
     = (Some Failed_to_add_contact, d_linked) \<and>
   length (db_connections d_linked) = 1"
proof -
  note h = d0_first_call
  from handleAddContact_twice_fails[OF h, of "''k2''" 2] h show ?thesis
    by (simp add: d_linked_def)
qed

section \<open>Properties of signing up\<close>

lemma signUp_rejected: "signUp d (Inl e) name rnd now = (Thrown (AuthError e), d)"
  by (simp add: signUp_def)

lemma signUp_no_user: "signUp d (Inr (None, s)) name rnd now = (Returned None, d)"
  by (simp add: signUp_def)

lemma signUp_accepted:
  "signUp d (Inr (Some uid, s)) name rnd now =
     (case generate_unique_pin (session_role uid s) rnd d of
        None \<Rightarrow> (Never_returns, d\<lparr>auth_users := auth_users d @ [uid]\<rparr>)
      | Some pin \<Rightarrow> (Thrown (StoreError RlsViolation), d\<lparr>auth_users := auth_users d @ [uid]\<rparr>))"
proof -
  have "generate_unique_pin (session_role uid s) rnd (d\<lparr>auth_users := auth_users d @ [uid]\<rparr>)
          = generate_unique_pin (session_role uid s) rnd d"
    by (rule generate_unique_pin_profiles) simp
  then show ?thesis
    by (simp add: signUp_def insert_profile_denied split: option.splits)
qed

lemma signUp_without_session:
  "signUp d0 (Inr (Some ''u4'', False)) ''Di'' rnd0 7
     = (Thrown (StoreError RlsViolation), d0\<lparr>auth_users := auth_users d0 @ [''u4'']\<rparr>)"
  by (simp add: signUp_accepted session_role_def generate_unique_pin_anon)

lemma signUp_pending:
  "signUp d0 (Inr (Some ''u4'', True)) ''Di'' rnd_stuck 7
     = (Never_returns, d0\<lparr>auth_users := auth_users d0 @ [''u4'']\<rparr>)"
proof -
  have "\<forall>k. list_ex (\<lambda>p. private_pin p = candidate_pin (rnd_stuck k)) (db_profiles d0)"
    by (simp add: rnd_stuck_def candidate_42 d0_def ann_def)
  then have "generate_unique_pin (authenticated ''u4'') rnd_stuck d0 = None"
    by (rule generate_unique_pin_authenticated_all_taken)
  then show ?thesis by (simp add: signUp_accepted session_role_def)
qed

text \<open>
  C9, as stated, fails. The identity provider creates the account of \<open>u4\<close> and opens no
  session; the profile insert is then anonymous, no policy admits it, and \<^verbatim>\<open>signUp\<close>
  throws with the account in place and no profile row for it. Likewise, with a session
  and a PIN allocation that never returns, \<^verbatim>\<open>signUp\<close> stays pending with the account
  in place and no profile row for it.
\<close>

theorem signUp_leaves_account_without_profile:
  "fst (signUp d0 (Inr (Some ''u4'', False)) ''Di'' rnd0 7) = Thrown (StoreError RlsViolation) \<and>
   ''u4'' \<in> set (auth_users (snd (signUp d0 (Inr (Some ''u4'', False)) ''Di'' rnd0 7))) \<and>
   \<not> list_ex (\<lambda>p. profile_id p = ''u4'')
       (db_profiles (snd (signUp d0 (Inr (Some ''u4'', False)) ''Di'' rnd0 7))) \<and>
   fst (signUp d0 (Inr (Some ''u4'', True)) ''Di'' rnd_stuck 7) = Never_returns \<and>
   ''u4'' \<in> set (auth_users (snd (signUp d0 (Inr (Some ''u4'', True)) ''Di'' rnd_stuck 7))) \<and>
   \<not> list_ex (\<lambda>p. profile_id p = ''u4'')
       (db_profiles (snd (signUp d0 (Inr (Some ''u4'', True)) ''Di'' rnd_stuck 7)))"
proof -
  have "''u4'' \<in> set (auth_users (d0\<lparr>auth_users := auth_users d0 @ [''u4'']\<rparr>))"
    by simp
  moreover have "\<not> list_ex (\<lambda>p. profile_id p = ''u4'')
      (db_profiles (d0\<lparr>auth_users := auth_users d0 @ [''u4'']\<rparr>))"
    by (simp add: d0_def ann_def bob_def cy_def)
  ultimately show ?thesis
    unfolding signUp_without_session signUp_pending by simp
qed

text \<open>
  C9, amended. \<^verbatim>\<open>signUp\<close> is not atomic: the account is created first, the PIN
  allocated and the profile inserted afterwards, in requests of their own that nothing
  undoes. When the identity provider answers with an error \<^verbatim>\<open>signUp\<close> throws, when it
  answers without a user \<^verbatim>\<open>signUp\<close> returns, and in both cases nothing is created. When
  it answers with a user, the account exists afterwards in every execution; and whenever
  \<^verbatim>\<open>signUp\<close> then throws or never returns, no profile row has been added, so that the
  account is left without a profile.
\<close>

theorem signUp_steps:
  "signUp d (Inl e) name rnd now = (Thrown (AuthError e), d) \<and>
   signUp d (Inr (None, s)) name rnd now = (Returned None, d) \<and>
   auth_users (snd (signUp d (Inr (Some uid, s)) name rnd now)) = auth_users d @ [uid] \<and>
   (fst (signUp d (Inr (Some uid, s)) name rnd now) = Never_returns \<or>
    (\<exists>err. fst (signUp d (Inr (Some uid, s)) name rnd now) = Thrown err)
      \<longrightarrow> db_profiles (snd (signUp d (Inr (Some uid, s)) name rnd now)) = db_profiles d)"
  by (simp add: signUp_rejected signUp_no_user signUp_accepted split: option.splits)

theorem signUp_steps_witness:
  "signUp d0 (Inl ''weak password'') ''Di'' rnd0 7 = (Thrown (AuthError ''weak password''), d0) \<and>
   signUp d0 (Inr (None, False)) ''Di'' rnd0 7 = (Returned None, d0) \<and>
   auth_users (snd (signUp d0 (Inr (Some ''u4'', False)) ''Di'' rnd0 7))
     = [''u1'', ''u2'', ''u3'', ''u4''] \<and>
   fst (signUp d0 (Inr (Some ''u4'', False)) ''Di'' rnd0 7) = Thrown (StoreError RlsViolation) \<and>
   db_profiles (snd (signUp d0 (Inr (Some ''u4'', False)) ''Di'' rnd0 7)) = db_profiles d0 \<and>
   fst (signUp d0 (Inr (Some ''u4'', True)) ''Di'' rnd_stuck 7) = Never_returns \<and>
   db_profiles (snd (signUp d0 (Inr (Some ''u4'', True)) ''Di'' rnd_stuck 7)) = db_profiles d0"
proof -
  have a: "auth_users d0 = [''u1'', ''u2'', ''u3'']" by (simp add: d0_def)
  have t: "fst (signUp d0 (Inr (Some ''u4'', False)) ''Di'' rnd0 7) = Thrown (StoreError RlsViolation)"
    by (simp add: signUp_without_session)
  have n: "fst (signUp d0 (Inr (Some ''u4'', True)) ''Di'' rnd_stuck 7) = Never_returns"
    by (simp add: signUp_pending)
  note w1 = signUp_steps[where d = d0 and e = "''weak password''" and name = "''Di''"
              and rnd = rnd0 and now = 7 and uid = "''u4''" and s = False]
  note w2 = signUp_steps[where d = d0 and e = "''weak password''" and name = "''Di''"
              and rnd = rnd_stuck and now = 7 and uid = "''u4''" and s = True]
  have p1: "db_profiles (snd (signUp d0 (Inr (Some ''u4'', False)) ''Di'' rnd0 7)) = db_profiles d0"
    using w1 t by blast
  have p2: "db_profiles (snd (signUp d0 (Inr (Some ''u4'', True)) ''Di'' rnd_stuck 7)) = db_profiles d0"
    using w2 n by blast
  show ?thesis using w1 a t n p1 p2 by simp
qed

end
